theory Spec2Isabelle
  imports Main
begin

section \<open>Python values used by escucha/app.py\<close>

text \<open>
  Strings are \<^typ>\<open>string\<close>. \<open>str.lower()\<close> is modelled on the ASCII letters; every
  string the program compares a lower-cased value with (\<open>mouse\<close>, \<open>touchpad\<close>, \<open>off\<close>,
  \<open>auto\<close>, \<open>ctrl+v\<close>, \<open>ctrl+shift+v\<close>) is ASCII.
\<close>

definition lower_chr :: "char \<Rightarrow> char" where
  "lower_chr c =
     (case map_of (zip ''ABCDEFGHIJKLMNOPQRSTUVWXYZ'' ''abcdefghijklmnopqrstuvwxyz'') c of
        Some l \<Rightarrow> l
      | None \<Rightarrow> c)"

definition lower :: "string \<Rightarrow> string" where
  "lower s = map lower_chr s"

text \<open>\<open>s.replace(" ", "")\<close>: every space character is dropped.\<close>

definition remove_spaces :: "string \<Rightarrow> string" where
  "remove_spaces s = filter (\<lambda>c. c \<noteq> CHR '' '') s"

text \<open>\<open>sub in s\<close> on strings: \<open>sub\<close> occurs in \<open>s\<close> as a contiguous block.\<close>

fun str_contains :: "string \<Rightarrow> string \<Rightarrow> bool" where
  "str_contains sub [] = (sub = [])"
| "str_contains sub (c # cs) = (take (length sub) (c # cs) = sub \<or> str_contains sub cs)"

text \<open>\<open>s.startswith(p)\<close>.\<close>

definition startswith :: "string \<Rightarrow> string \<Rightarrow> bool" where
  "startswith s p = (take (length p) s = p)"

text \<open>\<open>str(n)\<close> for an integer: its decimal digits, with a sign.\<close>

definition digit_chr :: "nat \<Rightarrow> char" where
  "digit_chr d = ''0123456789'' ! (d mod 10)"

function str_nat :: "nat \<Rightarrow> string" where
  "str_nat n = (if n < 10 then [digit_chr n] else str_nat (n div 10) @ [digit_chr (n mod 10)])"
  by pat_completeness auto
termination
  by (relation "measure (\<lambda>n. n)") auto

definition str_int :: "int \<Rightarrow> string" where
  "str_int i = (if i < 0 then CHR ''-'' # str_nat (nat (- i)) else str_nat (nat i))"

text \<open>
  Truth value of an optional string, as in \<open>bool(os.environ.get(k))\<close>, \<open>if which(t)\<close> and
  \<open>if wav_path\<close>: \<open>None\<close> and the empty string are false.
\<close>

definition truthy :: "string option \<Rightarrow> bool" where
  "truthy v = (case v of None \<Rightarrow> False | Some s \<Rightarrow> s \<noteq> [])"

text \<open>
  Exceptions. \<open>Exn cls msg\<close> is an instance of a subclass of \<open>Exception\<close>, with its class
  name and \<open>str(exc)\<close>; \<open>KeyboardInterrupt\<close> stands for the exceptions outside
  \<open>Exception\<close>, which \<open>except Exception\<close> does not catch.
\<close>

datatype exn = Exn string string | KeyboardInterrupt

fun is_Exception :: "exn \<Rightarrow> bool" where
  "is_Exception (Exn cls msg) = True"
| "is_Exception KeyboardInterrupt = False"

fun exn_str :: "exn \<Rightarrow> string" where
  "exn_str (Exn cls msg) = msg"
| "exn_str KeyboardInterrupt = []"

abbreviation RuntimeError :: "string \<Rightarrow> exn" where
  "RuntimeError msg \<equiv> Exn ''RuntimeError'' msg"

abbreviation ValueError :: "string \<Rightarrow> exn" where
  "ValueError msg \<equiv> Exn ''ValueError'' msg"

abbreviation OSError :: "string \<Rightarrow> exn" where
  "OSError msg \<equiv> Exn ''OSError'' msg"

abbreviation AttributeError :: "string \<Rightarrow> exn" where
  "AttributeError msg \<equiv> Exn ''AttributeError'' msg"

text \<open>The specification's names for the errors the program raises.\<close>

definition NoDeviceFound :: exn where
  "NoDeviceFound = RuntimeError ''No input devices found''"

definition NoPasteToolAvailable :: exn where
  "NoPasteToolAvailable = RuntimeError ''No paste tool found (install ydotool, wtype, or xdotool)''"

definition UnknownPasteMethod :: "string \<Rightarrow> exn" where
  "UnknownPasteMethod method = ValueError (''Unknown paste method: '' @ method)"

definition UnknownKey :: "string \<Rightarrow> exn" where
  "UnknownKey key = ValueError (''Unknown key name: '' @ key)"

definition PasteFailed_wtype :: exn where
  "PasteFailed_wtype = RuntimeError ''wtype failed to type or paste text''"

definition PasteFailed_ydotool :: exn where
  "PasteFailed_ydotool = RuntimeError ''ydotool failed to type text''"

definition is_PasteFailed :: "exn \<Rightarrow> bool" where
  "is_PasteFailed e = (e = PasteFailed_wtype \<or> e = PasteFailed_ydotool)"

section \<open>Settings\<close>

record Settings =
  key_name :: string
  keyboard_device :: string
  model :: string
  language :: string
  paste_method :: string
  paste_hotkey :: string
  clipboard_paste :: string
  ydotool_key_delay_ms :: int
  log_file :: string
  log_level :: string
  clipboard_paste_delay_ms :: int

section \<open>Key codes and input devices (evdev)\<close>

text \<open>
  \<open>resolve_key_code\<close>: the table of evdev's \<open>ecodes\<close> module is a parameter, a map from
  attribute names to codes.
\<close>

definition resolve_key_code :: "(string \<rightharpoonup> nat) \<Rightarrow> string \<Rightarrow> exn + nat" where
  "resolve_key_code ecodes key =
     (let key' = (if \<not> startswith key ''KEY_'' then ''KEY_'' @ key else key)
      in case ecodes key' of
           None \<Rightarrow> Inl (UnknownKey key')
         | Some c \<Rightarrow> Inr c)"

definition EV_KEY :: nat where
  "EV_KEY = 1"

text \<open>
  An opened \<open>InputDevice\<close>: its path, its name and its capability dictionary (event type
  to the list of codes). \<open>list_devices()\<close> and the constructor \<open>InputDevice(path)\<close>, which
  raises when the node cannot be opened, are what the host provides.
\<close>

record InputDevice =
  path :: string
  name :: string
  capabilities :: "(nat \<times> nat list) list"

record evdev =
  list_devices :: "string list"
  open_device :: "string \<Rightarrow> exn + InputDevice"

text \<open>\<open>[InputDevice(path) for path in list_devices()]\<close>: the first failing open raises.\<close>

fun open_all :: "(string \<Rightarrow> exn + InputDevice) \<Rightarrow> string list \<Rightarrow> exn + InputDevice list" where
  "open_all opn [] = Inr []"
| "open_all opn (p # ps) =
     (case opn p of
        Inl e \<Rightarrow> Inl e
      | Inr d \<Rightarrow> (case open_all opn ps of Inl e \<Rightarrow> Inl e | Inr ds \<Rightarrow> Inr (d # ds)))"

text \<open>The pointing-device test of the loop body of \<open>pick_keyboard_device\<close>.\<close>

definition is_pointer :: "InputDevice \<Rightarrow> bool" where
  "is_pointer dev =
     (let nm = lower (name dev) in str_contains ''mouse'' nm \<or> str_contains ''touchpad'' nm)"

text \<open>\<open>dev.capabilities().get(ecodes.EV_KEY, [])\<close>.\<close>

definition key_caps :: "InputDevice \<Rightarrow> nat list" where
  "key_caps dev = (case map_of (capabilities dev) EV_KEY of None \<Rightarrow> [] | Some cs \<Rightarrow> cs)"

text \<open>
  The \<open>for dev in devices\<close> loop of \<open>pick_keyboard_device\<close>: \<open>Some dev\<close> when the loop
  returns \<open>dev\<close>, \<open>None\<close> when it runs to its end.
\<close>

fun scan_devices :: "nat \<Rightarrow> InputDevice list \<Rightarrow> InputDevice option" where
  "scan_devices key_code [] = None"
| "scan_devices key_code (dev # rest) =
     (if is_pointer dev then scan_devices key_code rest
      else if key_code \<in> set (key_caps dev) then Some dev
      else scan_devices key_code rest)"

definition pick_keyboard_device :: "evdev \<Rightarrow> nat \<Rightarrow> string \<Rightarrow> exn + InputDevice" where
  "pick_keyboard_device sys key_code device_path =
     (if device_path \<noteq> ''auto'' then open_device sys device_path
      else case open_all (open_device sys) (list_devices sys) of
             Inl e \<Rightarrow> Inl e
           | Inr devices \<Rightarrow>
               (case scan_devices key_code devices of
                  Some dev \<Rightarrow> Inr dev
                | None \<Rightarrow>
                    (case devices of
                       d0 # _ \<Rightarrow> Inr d0
                     | [] \<Rightarrow> Inl NoDeviceFound)))"

text \<open>
  The device selection of the key test in escucha/gui.py (\<open>list_key_devices\<close> and the
  auto branch of \<open>pick_key_device_path\<close>): the pointing devices are filtered out before
  the first entry is taken.
\<close>

definition list_key_devices :: "InputDevice list \<Rightarrow> (string \<times> string) list" where
  "list_key_devices devices =
     map (\<lambda>d. (path d, name d))
       (filter (\<lambda>d. \<not> is_pointer d \<and> EV_KEY \<in> set (map fst (capabilities d))) devices)"

definition pick_key_device_path_auto :: "InputDevice list \<Rightarrow> exn + string" where
  "pick_key_device_path_auto devices =
     (case list_key_devices devices of
        (p, n) # _ \<Rightarrow> Inr p
      | [] \<Rightarrow> Inl (RuntimeError ''No keyboard device found for key test''))"

section \<open>The host: environment, tools, files, processes\<close>

text \<open>
  One \<open>subprocess.run\<close> call: the argument vector, the bytes given on standard input and
  the \<open>env=\<close> argument (\<open>None\<close> when the call passes none and the child inherits).
\<close>

record invocation =
  argv :: "string list"
  stdin :: "string option"
  env_arg :: "(string \<rightharpoonup> string) option"

datatype proc_result = Exited int | SpawnFailed string

datatype signal = SIGINT | SIGTERM

text \<open>
  The world outside the interpreter. What the outside answers can depend on when it is
  asked: every answer is a function of \<open>clock\<close>, which counts the external interactions
  so far. \<open>calls\<close> logs the \<open>subprocess.run\<close> invocations, \<open>signals\<close> the signals sent to
  recorder processes, \<open>sessions\<close> the recorder processes started by \<open>start_recording\<close>
  and not yet handed to \<open>stop_recording\<close>, each with its temporary file.
\<close>

record world =
  clock :: nat
  environ :: "string \<rightharpoonup> string"
  which :: "string \<Rightarrow> string option"
  getuid :: nat
  files :: "string set"
  run_result :: "nat \<Rightarrow> invocation \<Rightarrow> proc_result"
  calls :: "invocation list"
  tempdir :: string
  temp_random :: "nat \<Rightarrow> string"
  popen_result :: "nat \<Rightarrow> string option"
  next_pid :: nat
  sessions :: "(nat \<times> string) list"
  has_exited :: "nat \<Rightarrow> nat \<Rightarrow> bool"
  exits_in_time :: "nat \<Rightarrow> nat \<Rightarrow> bool"
  signals :: "(nat \<times> signal) list"
  whisper :: "nat \<Rightarrow> string \<Rightarrow> string option \<Rightarrow> string \<Rightarrow> exn + string list"

definition tick :: "world \<Rightarrow> world" where
  "tick w = w\<lparr>clock := Suc (clock w)\<rparr>"

text \<open>\<open>subprocess.run(..., check=False)\<close>: raises only when the program cannot be started.\<close>

definition subprocess_run :: "invocation \<Rightarrow> world \<Rightarrow> proc_result \<times> world" where
  "subprocess_run call w = (run_result w (clock w) call, tick (w\<lparr>calls := calls w @ [call]\<rparr>))"

text \<open>\<open>os.path.exists\<close> and \<open>os.unlink\<close> on the set of existing paths.\<close>

definition path_exists :: "world \<Rightarrow> string \<Rightarrow> bool" where
  "path_exists w p = (p \<in> files w)"

definition unlink :: "string \<Rightarrow> world \<Rightarrow> world" where
  "unlink p w = w\<lparr>files := files w - {p}\<rparr>"

section \<open>Paste method resolution and hotkey resolution\<close>

definition known_methods :: "string set" where
  "known_methods = {''xdotool'', ''wtype'', ''ydotool''}"

definition pick_paste_method :: "world \<Rightarrow> string \<Rightarrow> exn + string" where
  "pick_paste_method w preferred =
     (if preferred \<in> {''xdotool'', ''wtype'', ''ydotool''} then Inr preferred
      else
        let wayland = truthy (environ w ''WAYLAND_DISPLAY'');
            x11 = truthy (environ w ''DISPLAY'')
        in if wayland \<and> truthy (which w ''ydotool'') then Inr ''ydotool''
           else if wayland \<and> truthy (which w ''wtype'') then Inr ''wtype''
           else if x11 \<and> truthy (which w ''xdotool'') then Inr ''xdotool''
           else if truthy (which w ''ydotool'') then Inr ''ydotool''
           else if truthy (which w ''wtype'') then Inr ''wtype''
           else if truthy (which w ''xdotool'') then Inr ''xdotool''
           else Inl NoPasteToolAvailable)"

definition resolve_paste_hotkey :: "string \<Rightarrow> string" where
  "resolve_paste_hotkey hotkey =
     (let combo = remove_spaces (lower hotkey)
      in if combo \<notin> {''auto'', [], ''ctrl+v'', ''ctrl+shift+v''} then ''ctrl+v''
         else if combo \<in> {''auto'', []} then ''ctrl+v''
         else combo)"

section \<open>Per-utterance paste execution\<close>

text \<open>
  A \<open>subprocess.run\<close> followed by the code that reads its return code. A program that
  cannot be started raises \<open>OSError\<close> out of \<open>paste_text\<close>.
\<close>

definition run_then ::
  "invocation \<Rightarrow> world \<Rightarrow> (int \<Rightarrow> world \<Rightarrow> (exn + unit) \<times> world) \<Rightarrow> (exn + unit) \<times> world" where
  "run_then call w k =
     (case subprocess_run call w of
        (SpawnFailed msg, w') \<Rightarrow> (Inl (OSError msg), w')
      | (Exited rc, w') \<Rightarrow> k rc w')"

definition xdotool_type :: "string \<Rightarrow> invocation" where
  "xdotool_type text =
     \<lparr>argv = [''xdotool'', ''type'', ''--clearmodifiers'', ''--delay'', ''1'', ''--'', text],
      stdin = None, env_arg = None\<rparr>"

definition wtype_type :: "string \<Rightarrow> invocation" where
  "wtype_type text = \<lparr>argv = [''wtype'', ''-d'', ''1'', ''--'', text], stdin = None, env_arg = None\<rparr>"

definition wtype_stdin :: "string \<Rightarrow> invocation" where
  "wtype_stdin text = \<lparr>argv = [''wtype'', ''-''], stdin = Some text, env_arg = None\<rparr>"

definition wl_copy :: "string \<Rightarrow> invocation" where
  "wl_copy text = \<lparr>argv = [''wl-copy''], stdin = Some text, env_arg = None\<rparr>"

definition wtype_paste :: invocation where
  "wtype_paste =
     \<lparr>argv = [''wtype'', ''-M'', ''ctrl'', ''-k'', ''v'', ''-m'', ''ctrl''], stdin = None, env_arg = None\<rparr>"

definition ydotool_key :: "(string \<rightharpoonup> string) \<Rightarrow> int \<Rightarrow> string list \<Rightarrow> invocation" where
  "ydotool_key env delay keys =
     \<lparr>argv = [''ydotool'', ''key'', ''-d'', str_int delay] @ keys, stdin = None, env_arg = Some env\<rparr>"

definition ydotool_type :: "(string \<rightharpoonup> string) \<Rightarrow> int \<Rightarrow> string \<Rightarrow> invocation" where
  "ydotool_type env delay text =
     \<lparr>argv = [''ydotool'', ''type'', ''-d'', str_int delay, ''--file'', ''-''],
      stdin = Some text, env_arg = Some env\<rparr>"

text \<open>The \<open>xdotool\<close> branch: one invocation, whose return code is not read.\<close>

definition paste_xdotool :: "string \<Rightarrow> world \<Rightarrow> (exn + unit) \<times> world" where
  "paste_xdotool text w = run_then (xdotool_type text) w (\<lambda>rc w1. (Inr (), w1))"

text \<open>The \<open>wtype\<close> branch.\<close>

definition paste_wtype :: "string \<Rightarrow> world \<Rightarrow> (exn + unit) \<times> world" where
  "paste_wtype text w =
     run_then (wtype_type text) w (\<lambda>rc w1.
       if rc = 0 then (Inr (), w1)
       else run_then (wtype_stdin text) w1 (\<lambda>rc2 w2.
         if rc2 = 0 then (Inr (), w2)
         else if truthy (which w2 ''wl-copy'') then
           run_then (wl_copy text) w2 (\<lambda>rc3 w3.
             if rc3 = 0 then
               run_then wtype_paste w3 (\<lambda>rc4 w4.
                 if rc4 = 0 then (Inr (), w4) else (Inl PasteFailed_wtype, w4))
             else (Inl PasteFailed_wtype, w3))
         else (Inl PasteFailed_wtype, w2)))"

text \<open>The environment handed to \<open>ydotool\<close>: the socket resolution.\<close>

definition user_socket :: "world \<Rightarrow> string" where
  "user_socket w = ''/run/user/'' @ str_nat (getuid w) @ ''/.ydotool_socket''"

definition ydotool_env :: "world \<Rightarrow> (string \<rightharpoonup> string)" where
  "ydotool_env w =
     (let env = environ w;
          env1 = (if env ''YDOTOOL_SOCKET'' = None \<and> path_exists w ''/run/ydotoold.sock''
                  then env(''YDOTOOL_SOCKET'' \<mapsto> ''/run/ydotoold.sock'') else env)
      in if env1 ''YDOTOOL_SOCKET'' = None
         then (if path_exists w (user_socket w)
               then env1(''YDOTOOL_SOCKET'' \<mapsto> user_socket w) else env1)
         else env1)"

definition paste_keys :: "string \<Rightarrow> string list" where
  "paste_keys hotkey =
     (if resolve_paste_hotkey hotkey = ''ctrl+shift+v''
      then [''29:1'', ''42:1'', ''47:1'', ''47:0'', ''42:0'', ''29:0'']
      else [''29:1'', ''47:1'', ''47:0'', ''29:0''])"

text \<open>The last step of the \<open>ydotool\<close> branch: the text streamed as keystrokes.\<close>

definition ydotool_stream :: "(string \<rightharpoonup> string) \<Rightarrow> int \<Rightarrow> string \<Rightarrow> world \<Rightarrow> (exn + unit) \<times> world" where
  "ydotool_stream env delay text w =
     run_then (ydotool_type env delay text) w (\<lambda>rc w1.
       if rc \<noteq> 0 then (Inl PasteFailed_ydotool, w1) else (Inr (), w1))"

text \<open>
  The \<open>ydotool\<close> branch. \<open>time.sleep\<close> before the paste keys has no effect on the model's
  state and is left out.
\<close>

definition paste_ydotool ::
  "string \<Rightarrow> string \<Rightarrow> string \<Rightarrow> int \<Rightarrow> int \<Rightarrow> world \<Rightarrow> (exn + unit) \<times> world" where
  "paste_ydotool text hotkey clip key_delay clip_delay w =
     (let env = ydotool_env w;
          allow_clipboard = (lower clip \<noteq> ''off'')
      in if allow_clipboard \<and> truthy (which w ''wl-copy'') then
           run_then (wl_copy text) w (\<lambda>rc w1.
             if rc = 0 then
               run_then (ydotool_key env key_delay (paste_keys hotkey)) w1 (\<lambda>rc2 w2.
                 if rc2 = 0 then (Inr (), w2) else ydotool_stream env key_delay text w2)
             else ydotool_stream env key_delay text w1)
         else ydotool_stream env key_delay text w)"

definition paste_text ::
  "string \<Rightarrow> string \<Rightarrow> string \<Rightarrow> string \<Rightarrow> int \<Rightarrow> int \<Rightarrow> world \<Rightarrow> (exn + unit) \<times> world" where
  "paste_text text method hotkey clip key_delay clip_delay w =
     (if text = [] then (Inr (), w)
      else if method = ''xdotool'' then paste_xdotool text w
      else if method = ''wtype'' then paste_wtype text w
      else if method = ''ydotool'' then paste_ydotool text hotkey clip key_delay clip_delay w
      else (Inl (UnknownPasteMethod method), w))"

section \<open>Recording and transcription\<close>

definition arecord_cmd :: "string \<Rightarrow> string list" where
  "arecord_cmd wav =
     [''arecord'', ''-q'', ''-f'', ''S16_LE'', ''-r'', ''16000'', ''-c'', ''1'', ''-t'', ''wav'', wav]"

text \<open>
  \<open>start_recording\<close>: \<open>NamedTemporaryFile(prefix="whisper-fn-", suffix=".wav",
  delete=False)\<close> creates the file; \<open>Popen\<close> starts the recorder or raises. The process
  handle is the number of the process.
\<close>

definition temp_name :: "world \<Rightarrow> string" where
  "temp_name w = tempdir w @ ''/whisper-fn-'' @ temp_random w (clock w) @ ''.wav''"

definition start_recording :: "world \<Rightarrow> (exn + nat \<times> string) \<times> world" where
  "start_recording w =
     (let wav = temp_name w;
          w1 = tick (w\<lparr>files := insert wav (files w)\<rparr>)
      in case popen_result w1 (clock w1) of
           Some msg \<Rightarrow> (Inl (OSError msg), tick w1)
         | None \<Rightarrow>
             (Inr (next_pid w1, wav),
              tick (w1\<lparr>next_pid := Suc (next_pid w1),
                        sessions := sessions w1 @ [(next_pid w1, wav)]\<rparr>)))"

text \<open>
  \<open>stop_recording(proc)\<close>: nothing when \<open>proc.poll()\<close> shows the process gone; else SIGINT,
  a wait of two seconds, and \<open>terminate()\<close> when the wait times out. With \<open>proc = None\<close>
  the attribute access raises.
\<close>

definition stop_recording :: "nat option \<Rightarrow> world \<Rightarrow> (exn + unit) \<times> world" where
  "stop_recording p w =
     (case p of
        None \<Rightarrow> (Inl (AttributeError ''NoneType object has no attribute poll''), w)
      | Some pid \<Rightarrow>
          (let w0 = w\<lparr>sessions := filter (\<lambda>s. fst s \<noteq> pid) (sessions w)\<rparr>
           in if has_exited w0 (clock w0) pid then (Inr (), tick w0)
              else
                let w1 = tick (w0\<lparr>signals := signals w0 @ [(pid, SIGINT)]\<rparr>)
                in if exits_in_time w1 (clock w1) pid then (Inr (), tick w1)
                   else (Inr (), tick (w1\<lparr>signals := signals w1 @ [(pid, SIGTERM)]\<rparr>))))"

text \<open>\<open>str.strip()\<close>, \<open>str.split()\<close> and \<open>" ".join\<close>, on ASCII white space.\<close>

definition py_isspace :: "char \<Rightarrow> bool" where
  "py_isspace c = (c \<in> set [CHR '' '', CHR 0x09, CHR 0x0A, CHR 0x0B, CHR 0x0C, CHR 0x0D,
                             CHR 0x1C, CHR 0x1D, CHR 0x1E, CHR 0x1F])"

definition strip :: "string \<Rightarrow> string" where
  "strip s = rev (dropWhile py_isspace (rev (dropWhile py_isspace s)))"

fun split_ws :: "string \<Rightarrow> string \<Rightarrow> string list" where
  "split_ws cur [] = (if cur = [] then [] else [rev cur])"
| "split_ws cur (c # cs) =
     (if py_isspace c then (if cur = [] then [] else [rev cur]) @ split_ws [] cs
      else split_ws (c # cur) cs)"

fun join_sp :: "string list \<Rightarrow> string" where
  "join_sp [] = []"
| "join_sp [x] = x"
| "join_sp (x # y # ys) = x @ '' '' @ join_sp (y # ys)"

text \<open>
  \<open>transcribe\<close>: the recogniser (\<open>model.transcribe\<close> and the iteration over its segments)
  is the host's \<open>whisper\<close>, which yields the segments' texts or raises.
\<close>

definition transcribe :: "string \<Rightarrow> string option \<Rightarrow> string \<Rightarrow> world \<Rightarrow> (exn + string) \<times> world" where
  "transcribe mdl wav lang w =
     (case whisper w (clock w) mdl wav lang of
        Inl e \<Rightarrow> (Inl e, tick w)
      | Inr segs \<Rightarrow> (Inr (join_sp (split_ws [] (strip (concat segs)))), tick w))"

section \<open>The dictation service\<close>

text \<open>
  \<open>DictationService\<close>: the three callbacks are optional; a field says whether one is
  attached. A callback only records what it is given.
\<close>

record DictationService =
  settings :: Settings
  on_status :: bool
  on_text :: bool
  on_error :: bool
  key_code :: nat
  device :: InputDevice
  svc_paste_method :: string
  svc_model :: string

text \<open>\<open>DictationService.__init__\<close>; \<open>load_model\<close> is the host's loader, which may raise.\<close>

definition init_service ::
  "(string \<rightharpoonup> nat) \<Rightarrow> evdev \<Rightarrow> (string \<Rightarrow> exn + string) \<Rightarrow> world \<Rightarrow> Settings
     \<Rightarrow> bool \<Rightarrow> bool \<Rightarrow> bool \<Rightarrow> exn + DictationService" where
  "init_service ecodes sys load_model w s st_cb tx_cb er_cb =
     (case resolve_key_code ecodes (key_name s) of
        Inl e \<Rightarrow> Inl e
      | Inr kc \<Rightarrow>
     (case pick_keyboard_device sys kc (keyboard_device s) of
        Inl e \<Rightarrow> Inl e
      | Inr dev \<Rightarrow>
     (case pick_paste_method w (paste_method s) of
        Inl e \<Rightarrow> Inl e
      | Inr m \<Rightarrow>
     (case load_model (model s) of
        Inl e \<Rightarrow> Inl e
      | Inr h \<Rightarrow>
          Inr \<lparr>settings = s, on_status = st_cb, on_text = tx_cb, on_error = er_cb,
               key_code = kc, device = dev, svc_paste_method = m, svc_model = h\<rparr>))))"

datatype event = StatusEv string | TextEv string | ErrorEv string

record key_event =
  ev_type :: nat
  ev_code :: nat
  ev_value :: int

text \<open>
  The local variables of \<open>run\<close>, the host, and the messages the callbacks have received.
\<close>

record loop_state =
  recording :: bool
  proc :: "nat option"
  wav_path :: "string option"
  host :: world
  delivered :: "event list"

text \<open>The methods \<open>_status\<close>, \<open>_text\<close> and \<open>_error\<close>.\<close>

definition svc_status :: "DictationService \<Rightarrow> string \<Rightarrow> loop_state \<Rightarrow> loop_state" where
  "svc_status svc msg st =
     (if on_status svc then st\<lparr>delivered := delivered st @ [StatusEv msg]\<rparr> else st)"

definition svc_text :: "DictationService \<Rightarrow> string \<Rightarrow> loop_state \<Rightarrow> loop_state" where
  "svc_text svc msg st =
     (if on_text svc then st\<lparr>delivered := delivered st @ [TextEv msg]\<rparr> else st)"

definition svc_error :: "DictationService \<Rightarrow> string \<Rightarrow> loop_state \<Rightarrow> loop_state" where
  "svc_error svc msg st =
     (if on_error svc then st\<lparr>delivered := delivered st @ [ErrorEv msg]\<rparr> else st)"

text \<open>The branch \<open>event.value == 1 and not recording\<close>.\<close>

definition on_key_down :: "DictationService \<Rightarrow> loop_state \<Rightarrow> (exn \<times> loop_state) + loop_state" where
  "on_key_down svc st =
     (case start_recording (host st) of
        (Inl e, w1) \<Rightarrow> Inl (e, st\<lparr>host := w1\<rparr>)
      | (Inr (p, wav), w1) \<Rightarrow>
          Inr (svc_status svc ''recording''
                 (st\<lparr>proc := Some p, wav_path := Some wav, recording := True, host := w1\<rparr>)))"

text \<open>The body of the \<open>try\<close>: transcribe, hand the text to \<open>_text\<close>, paste.\<close>

definition transcribe_call :: "DictationService \<Rightarrow> loop_state \<Rightarrow> (exn + string) \<times> world" where
  "transcribe_call svc st =
     transcribe (svc_model svc) (wav_path st) (language (settings svc)) (host st)"

definition paste_call :: "DictationService \<Rightarrow> string \<Rightarrow> loop_state \<Rightarrow> (exn + unit) \<times> world" where
  "paste_call svc text st =
     paste_text text (svc_paste_method svc) (paste_hotkey (settings svc))
       (clipboard_paste (settings svc)) (ydotool_key_delay_ms (settings svc))
       (clipboard_paste_delay_ms (settings svc)) (host st)"

definition try_body :: "DictationService \<Rightarrow> loop_state \<Rightarrow> (exn + unit) \<times> loop_state" where
  "try_body svc st =
     (case transcribe_call svc st of
        (Inl e, w1) \<Rightarrow> (Inl e, st\<lparr>host := w1\<rparr>)
      | (Inr text, w1) \<Rightarrow>
          (let st1 = svc_text svc text (st\<lparr>host := w1\<rparr>)
           in case paste_call svc text st1 of
                (r, w2) \<Rightarrow> (r, st1\<lparr>host := w2\<rparr>)))"

text \<open>The \<open>finally\<close> clause: \<open>if wav_path and os.path.exists(wav_path): os.unlink(wav_path)\<close>.\<close>

definition cleanup_wav :: "loop_state \<Rightarrow> loop_state" where
  "cleanup_wav st =
     (case wav_path st of
        None \<Rightarrow> st
      | Some p \<Rightarrow>
          if p \<noteq> [] \<and> path_exists (host st) p then st\<lparr>host := unlink p (host st)\<rparr> else st)"

text \<open>
  The statements of the key-up branch before the \<open>try\<close>: \<open>stop_recording(proc)\<close>, the
  sleep (no effect on the state) and \<open>_status("transcribing")\<close>.
\<close>

definition before_try :: "DictationService \<Rightarrow> loop_state \<Rightarrow> (exn \<times> loop_state) + loop_state" where
  "before_try svc st =
     (case stop_recording (proc st) (host st) of
        (Inl e, w1) \<Rightarrow> Inl (e, st\<lparr>host := w1\<rparr>)
      | (Inr u, w1) \<Rightarrow> Inr (svc_status svc ''transcribing'' (st\<lparr>host := w1\<rparr>)))"

text \<open>
  The \<open>try\<close> statement with its \<open>except Exception\<close> and \<open>finally\<close> clauses, and the two
  statements after it. An exception outside \<open>Exception\<close> leaves through \<open>finally\<close>.
\<close>

definition try_except_finally ::
  "DictationService \<Rightarrow> loop_state \<Rightarrow> (exn \<times> loop_state) + loop_state" where
  "try_except_finally svc st =
     (case try_body svc st of
        (Inr u, st1) \<Rightarrow> Inr (cleanup_wav st1)
      | (Inl e, st1) \<Rightarrow>
          if is_Exception e
          then Inr (cleanup_wav (svc_error svc (''Transcribe/paste error: '' @ exn_str e) st1))
          else Inl (e, cleanup_wav st1))"

definition on_key_up :: "DictationService \<Rightarrow> loop_state \<Rightarrow> (exn \<times> loop_state) + loop_state" where
  "on_key_up svc st =
     (case before_try svc st of
        Inl x \<Rightarrow> Inl x
      | Inr st1 \<Rightarrow>
          (case try_except_finally svc st1 of
             Inl x \<Rightarrow> Inl x
           | Inr st2 \<Rightarrow> Inr (svc_status svc ''ready'' (st2\<lparr>recording := False\<rparr>))))"

text \<open>The body of \<open>for event in events\<close>.\<close>

definition handle_event ::
  "DictationService \<Rightarrow> key_event \<Rightarrow> loop_state \<Rightarrow> (exn \<times> loop_state) + loop_state" where
  "handle_event svc ev st =
     (if ev_type ev \<noteq> EV_KEY then Inr st
      else if ev_code ev \<noteq> key_code svc then Inr st
      else if ev_value ev = 1 \<and> \<not> recording st then on_key_down svc st
      else if ev_value ev = 0 \<and> recording st then on_key_up svc st
      else Inr st)"

fun handle_events ::
  "DictationService \<Rightarrow> key_event list \<Rightarrow> loop_state \<Rightarrow> (exn \<times> loop_state) + loop_state" where
  "handle_events svc [] st = Inr st"
| "handle_events svc (ev # evs) st =
     (case handle_event svc ev st of
        Inl x \<Rightarrow> Inl x
      | Inr st1 \<Rightarrow> handle_events svc evs st1)"

text \<open>
  One pass of \<open>while not stop_event.is_set()\<close> meets one of five things: the stop flag
  set, \<open>select\<close> raising \<open>OSError\<close>, \<open>select\<close> timing out, \<open>device.read()\<close> raising
  \<open>OSError\<close>, or a batch of events. The loop is run on a list of them; \<open>Pending\<close> is the
  loop still running when the list ends.
\<close>

datatype iteration =
  StopSet | SelectError string | Timeout | ReadError string | Events "key_event list"

datatype outcome = Returned loop_state | Raised exn loop_state | Pending loop_state

fun state_of :: "outcome \<Rightarrow> loop_state" where
  "state_of (Returned st) = st"
| "state_of (Raised e st) = st"
| "state_of (Pending st) = st"

text \<open>The statements after the loop.\<close>

definition after_loop :: "loop_state \<Rightarrow> outcome" where
  "after_loop st =
     (if recording st \<and> proc st \<noteq> None then
        (case stop_recording (proc st) (host st) of
           (Inl e, w1) \<Rightarrow> Raised e (st\<lparr>host := w1\<rparr>)
         | (Inr u, w1) \<Rightarrow> Returned (cleanup_wav (st\<lparr>host := w1\<rparr>)))
      else Returned st)"

fun run_loop :: "DictationService \<Rightarrow> iteration list \<Rightarrow> loop_state \<Rightarrow> outcome" where
  "run_loop svc [] st = Pending st"
| "run_loop svc (StopSet # its) st = after_loop st"
| "run_loop svc (SelectError msg # its) st =
     after_loop (svc_error svc (''Input device error: '' @ msg) st)"
| "run_loop svc (Timeout # its) st = run_loop svc its st"
| "run_loop svc (ReadError msg # its) st =
     after_loop (svc_error svc (''Input read error: '' @ msg) st)"
| "run_loop svc (Events evs # its) st =
     (case handle_events svc evs st of
        Inl (e, st1) \<Rightarrow> Raised e st1
      | Inr st1 \<Rightarrow> run_loop svc its st1)"

definition init_state :: "world \<Rightarrow> loop_state" where
  "init_state w = \<lparr>recording = False, proc = None, wav_path = None, host = w, delivered = []\<rparr>"

definition run :: "DictationService \<Rightarrow> iteration list \<Rightarrow> world \<Rightarrow> outcome" where
  "run svc its w = run_loop svc its (svc_status svc ''ready'' (init_state w))"

text \<open>The state a handler leaves behind, whether it returns or raises.\<close>

fun result_state :: "(exn \<times> loop_state) + loop_state \<Rightarrow> loop_state" where
  "result_state (Inl (e, st)) = st"
| "result_state (Inr st) = st"

text \<open>
  The bookkeeping of recording sessions between events: while \<open>recording\<close> is set, the one
  session is the process and the file held in \<open>proc\<close> and \<open>wav_path\<close>; otherwise there
  is none.
\<close>

definition session_inv :: "loop_state \<Rightarrow> bool" where
  "session_inv st =
     (if recording st
      then (case (proc st, wav_path st) of
              (Some pid, Some p) \<Rightarrow> p \<noteq> [] \<and> sessions (host st) = [(pid, p)]
            | _ \<Rightarrow> False)
      else sessions (host st) = [])"

section \<open>Method resolution as the specification words it\<close>

text \<open>
  The probes of \<open>pick_paste_method\<close>: a display marker counts as present when the
  variable is set to a non-empty value, a tool as available when \<open>which\<close> finds it.
\<close>

definition wayland_session :: "world \<Rightarrow> bool" where
  "wayland_session w = truthy (environ w ''WAYLAND_DISPLAY'')"

definition x11_session :: "world \<Rightarrow> bool" where
  "x11_session w = truthy (environ w ''DISPLAY'')"

definition available :: "world \<Rightarrow> string \<Rightarrow> bool" where
  "available w tool = truthy (which w tool)"

text \<open>
  The resolution order in the specification's words: Wayland with the clipboard-capable
  tool, Wayland with the direct-type tool, X11 with its type tool, and otherwise the
  first available tool of the fixed order \<open>ydotool\<close>, \<open>wtype\<close>, \<open>xdotool\<close>.
\<close>

definition fallback_order :: "string list" where
  "fallback_order = [''ydotool'', ''wtype'', ''xdotool'']"

definition spec_method_resolution :: "bool \<Rightarrow> bool \<Rightarrow> (string \<Rightarrow> bool) \<Rightarrow> exn + string" where
  "spec_method_resolution wayland x11 avail =
     (if wayland \<and> avail ''ydotool'' then Inr ''ydotool''
      else if wayland \<and> avail ''wtype'' then Inr ''wtype''
      else if x11 \<and> avail ''xdotool'' then Inr ''xdotool''
      else (case filter avail fallback_order of
              tool # _ \<Rightarrow> Inr tool
            | [] \<Rightarrow> Inl NoPasteToolAvailable))"

section \<open>Concrete hosts, devices and inputs\<close>

definition quiet_world :: world where
  "quiet_world =
     \<lparr>clock = 0, environ = Map.empty, which = (\<lambda>tool. None), getuid = 1000, files = {},
      run_result = (\<lambda>n call. Exited 0), calls = [], tempdir = ''/tmp'',
      temp_random = (\<lambda>n. ''k3x9q2ab''), popen_result = (\<lambda>n. None), next_pid = 1,
      sessions = [], has_exited = (\<lambda>n pid. False), exits_in_time = (\<lambda>n pid. True),
      signals = [], whisper = (\<lambda>n mdl wav lang. Inr ['' hello'', '' world''])\<rparr>"

text \<open>A Wayland session with \<open>ydotool\<close> and \<open>wtype\<close> installed.\<close>

definition wayland_world :: world where
  "wayland_world =
     quiet_world\<lparr>environ := [''WAYLAND_DISPLAY'' \<mapsto> ''wayland-0''],
                 which := [''ydotool'' \<mapsto> ''/usr/bin/ydotool'', ''wtype'' \<mapsto> ''/usr/bin/wtype'']\<rparr>"

text \<open>An X11 session in which every external tool exits with status 1.\<close>

definition failing_tools_world :: world where
  "failing_tools_world =
     quiet_world\<lparr>environ := [''DISPLAY'' \<mapsto> '':0''],
                 which := [''xdotool'' \<mapsto> ''/usr/bin/xdotool''],
                 run_result := (\<lambda>n call. Exited 1)\<rparr>"

text \<open>A host whose recogniser raises.\<close>

definition deaf_world :: world where
  "deaf_world = wayland_world\<lparr>whisper := (\<lambda>n mdl wav lang. Inl (RuntimeError ''model failure''))\<rparr>"

definition usb_mouse :: InputDevice where
  "usb_mouse = \<lparr>path = ''/dev/input/event0'', name = ''Logitech USB Optical Mouse'',
                capabilities = [(1, [272, 273, 274]), (2, [0, 1, 8])]\<rparr>"

definition plain_keyboard :: InputDevice where
  "plain_keyboard = \<lparr>path = ''/dev/input/event1'', name = ''AT Translated Set 2 keyboard'',
                     capabilities = [(1, [1, 28, 29, 30, 42, 47, 57])]\<rparr>"

definition mouse_first_host :: evdev where
  "mouse_first_host =
     \<lparr>list_devices = [''/dev/input/event0'', ''/dev/input/event1''],
      open_device = (\<lambda>p. if p = ''/dev/input/event0'' then Inr usb_mouse
                          else if p = ''/dev/input/event1'' then Inr plain_keyboard
                          else Inl (OSError ''No such device''))\<rparr>"

definition KEY_FN :: nat where
  "KEY_FN = 464"

definition default_settings :: Settings where
  "default_settings =
     \<lparr>key_name = ''KEY_FN'', keyboard_device = ''auto'', model = ''base.en'', language = ''en'',
      paste_method = ''auto'', paste_hotkey = ''auto'', clipboard_paste = ''auto'',
      ydotool_key_delay_ms = 1, log_file = [], log_level = ''info'',
      clipboard_paste_delay_ms = 75\<rparr>"

definition demo_service :: DictationService where
  "demo_service =
     \<lparr>settings = default_settings, on_status = True, on_text = True, on_error = True,
      key_code = KEY_FN, device = plain_keyboard, svc_paste_method = ''ydotool'',
      svc_model = ''base.en''\<rparr>"

definition key_ev :: "int \<Rightarrow> key_event" where
  "key_ev v = \<lparr>ev_type = EV_KEY, ev_code = KEY_FN, ev_value = v\<rparr>"


text \<open>A table of key names for \<open>resolve_key_code\<close>.\<close>

definition demo_ecodes :: "string \<rightharpoonup> nat" where
  "demo_ecodes = [''KEY_FN'' \<mapsto> KEY_FN, ''KEY_F12'' \<mapsto> 88]"

text \<open>The service on the Wayland host before any key event.\<close>

definition idle_state :: loop_state where
  "idle_state = svc_status demo_service ''ready'' (init_state wayland_world)"

text \<open>The state after the key has gone down once on the Wayland host: a recording runs.\<close>

definition held_state :: loop_state where
  "held_state =
     result_state (handle_event demo_service (key_ev 1)
                     (svc_status demo_service ''ready'' (init_state wayland_world)))"





text \<open>
  The state on the Wayland host after the key has been released, and a run in which the
  key goes down again before the release has been handled: the second key-down is read
  in one batch with the key-up and waits in it while the first utterance is transcribed.
\<close>

definition released_state :: loop_state where
  "released_state = result_state (handle_event demo_service (key_ev 0) held_state)"

definition queued_key_down_run :: outcome where
  "queued_key_down_run =
     run demo_service [Events [key_ev 1], Events [key_ev 0, key_ev 1]] wayland_world"

section \<open>What a step leaves untouched\<close>

text \<open>Two hosts with the same files and the same recording sessions.\<close>

definition same_fs :: "world \<Rightarrow> world \<Rightarrow> bool" where
  "same_fs w w' = (files w' = files w \<and> sessions w' = sessions w)"

section \<open>Device resolution\<close>

lemmas world_defs = wayland_world_def quiet_world_def failing_tools_world_def deaf_world_def

lemmas svc_defs = demo_service_def default_settings_def key_ev_def KEY_FN_def EV_KEY_def

text \<open>
  Claim C1. With selector \<open>auto\<close>, pointing devices are excluded, the first remaining
  device declaring the key is returned, and the fallback is the first non-excluded device.
  The code's fallback is \<open>devices[0]\<close>, the first device of the unfiltered list: on a host
  that lists a mouse before a keyboard, neither declaring the key, \<open>pick_keyboard_device\<close>
  returns the mouse, the device the loop has just skipped. The key test of gui.py, on the
  same devices, filters first and takes the keyboard.
\<close>

theorem pick_keyboard_device_falls_back_to_mouse:
  "pick_keyboard_device mouse_first_host KEY_FN ''auto'' = Inr usb_mouse \<and>
   is_pointer usb_mouse \<and> \<not> is_pointer plain_keyboard \<and>
   scan_devices KEY_FN [usb_mouse, plain_keyboard] = None \<and>
   pick_key_device_path_auto [usb_mouse, plain_keyboard] = Inr ''/dev/input/event1''"
  by (simp add: pick_keyboard_device_def mouse_first_host_def usb_mouse_def plain_keyboard_def
      is_pointer_def key_caps_def EV_KEY_def KEY_FN_def lower_def lower_chr_def Let_def
      pick_key_device_path_auto_def list_key_devices_def)

section \<open>Paste method resolution\<close>

text \<open>
  Claim C7. With no known method configured, resolution follows the order Wayland and
  \<open>ydotool\<close>, Wayland and \<open>wtype\<close>, X11 and \<open>xdotool\<close>, then the first available of
  \<open>ydotool\<close>, \<open>wtype\<close>, \<open>xdotool\<close>; it fails exactly when none of the three is available,
  and then with \<open>NoPasteToolAvailable\<close>. In particular a Wayland session with \<open>ydotool\<close>
  available selects \<open>ydotool\<close>.
\<close>

theorem pick_paste_method_resolution_order:
  "preferred \<notin> known_methods \<Longrightarrow>
   pick_paste_method w preferred =
     spec_method_resolution (wayland_session w) (x11_session w) (available w) \<and>
   (wayland_session w \<and> available w ''ydotool'' \<longrightarrow>
      pick_paste_method w preferred = Inr ''ydotool'') \<and>
   ((\<exists>e. pick_paste_method w preferred = Inl e) \<longleftrightarrow>
      (\<not> available w ''ydotool'' \<and> \<not> available w ''wtype'' \<and> \<not> available w ''xdotool'')) \<and>
   (\<forall>e. pick_paste_method w preferred = Inl e \<longrightarrow> e = NoPasteToolAvailable)"
  by (auto simp: pick_paste_method_def known_methods_def spec_method_resolution_def
      fallback_order_def wayland_session_def x11_session_def available_def Let_def)

theorem pick_paste_method_resolution_order_witness:
  "''auto'' \<notin> known_methods \<and> wayland_session wayland_world \<and>
   available wayland_world ''ydotool'' \<and> available wayland_world ''wtype'' \<and>
   pick_paste_method wayland_world ''auto'' = Inr ''ydotool''"
proof -
  have h: "''auto'' \<notin> known_methods"
    by (simp add: known_methods_def)
  have a: "wayland_session wayland_world"
    by (simp add: wayland_session_def truthy_def world_defs)
  have b: "available wayland_world ''ydotool''" "available wayland_world ''wtype''"
    by (simp_all add: available_def truthy_def world_defs)
  from pick_paste_method_resolution_order[OF h, of wayland_world] h a b show ?thesis
    by blast
qed

section \<open>Hotkey resolution\<close>

text \<open>
  Claim C8. \<open>resolve_paste_hotkey\<close> returns \<open>ctrl+shift+v\<close> exactly when the input, lower-cased
  and with its spaces removed, is \<open>ctrl+shift+v\<close>, and \<open>ctrl+v\<close> for every other input,
  among them \<open>auto\<close>, \<open>Auto\<close>, the empty string, \<open>CTRL+V\<close> and an unrecognised string.
\<close>

theorem resolve_paste_hotkey_two_values:
  "resolve_paste_hotkey s =
     (if remove_spaces (lower s) = ''ctrl+shift+v'' then ''ctrl+shift+v'' else ''ctrl+v'') \<and>
   resolve_paste_hotkey ''auto'' = ''ctrl+v'' \<and>
   resolve_paste_hotkey ''Auto'' = ''ctrl+v'' \<and>
   resolve_paste_hotkey [] = ''ctrl+v'' \<and>
   resolve_paste_hotkey ''CTRL+V'' = ''ctrl+v'' \<and>
   resolve_paste_hotkey ''super+v'' = ''ctrl+v'' \<and>
   resolve_paste_hotkey ''Ctrl + Shift + V'' = ''ctrl+shift+v''"
proof -
  have general: "resolve_paste_hotkey s =
     (if remove_spaces (lower s) = ''ctrl+shift+v'' then ''ctrl+shift+v'' else ''ctrl+v'')"
    by (auto simp: resolve_paste_hotkey_def Let_def)
  have examples:
    "resolve_paste_hotkey ''auto'' = ''ctrl+v''" "resolve_paste_hotkey ''Auto'' = ''ctrl+v''"
    "resolve_paste_hotkey [] = ''ctrl+v''" "resolve_paste_hotkey ''CTRL+V'' = ''ctrl+v''"
    "resolve_paste_hotkey ''super+v'' = ''ctrl+v''"
    "resolve_paste_hotkey ''Ctrl + Shift + V'' = ''ctrl+shift+v''"
    by (simp_all add: resolve_paste_hotkey_def Let_def remove_spaces_def lower_def lower_chr_def)
  from general examples show ?thesis
    by blast
qed

section \<open>Per-utterance paste execution: the properties\<close>

text \<open>
  Claim C9. With the empty string as text, \<open>paste_text\<close> returns at once, whatever the
  method and the configuration: no error, no external invocation, the host untouched.
\<close>

theorem paste_text_empty_is_noop:
  "paste_text [] method hotkey clip key_delay clip_delay w = (Inr (), w) \<and>
   calls (snd (paste_text [] method hotkey clip key_delay clip_delay w)) = calls w"
  by (simp add: paste_text_def)

text \<open>
  Claim C3. The \<open>xdotool\<close> method is one type invocation with the modifiers cleared, and a
  non-zero exit status of it raises \<open>PasteFailed\<close>. The code runs the one invocation and
  never reads its return code: where \<open>xdotool\<close> exits with status 1, \<open>paste_text\<close> returns
  normally, while the \<open>wtype\<close> and \<open>ydotool\<close> branches raise on the same host.
\<close>

theorem paste_text_xdotool_ignores_exit_status:
  "run_result failing_tools_world (clock failing_tools_world) (xdotool_type ''hello'') = Exited 1 \<and>
   fst (paste_text ''hello'' ''xdotool'' ''auto'' ''auto'' 1 75 failing_tools_world) = Inr () \<and>
   calls (snd (paste_text ''hello'' ''xdotool'' ''auto'' ''auto'' 1 75 failing_tools_world)) =
     [xdotool_type ''hello''] \<and>
   fst (paste_text ''hello'' ''wtype'' ''auto'' ''auto'' 1 75 failing_tools_world) =
     Inl PasteFailed_wtype \<and>
   fst (paste_text ''hello'' ''ydotool'' ''auto'' ''auto'' 1 75 failing_tools_world) =
     Inl PasteFailed_ydotool"
  by (simp add: paste_text_def paste_xdotool_def paste_wtype_def paste_ydotool_def
      ydotool_stream_def run_then_def subprocess_run_def world_defs tick_def truthy_def Let_def
      lower_def lower_chr_def)

subsection \<open>Where the unknown-method error can come from\<close>

text \<open>
  No branch of a known method produces the unknown-method error: a tool that cannot be
  started raises \<open>OSError\<close>, an exhausted cascade raises \<open>RuntimeError\<close>.
\<close>

lemma run_then_not_unknown:
  assumes "\<And>rc w1. fst (k rc w1) \<noteq> Inl (UnknownPasteMethod m)"
  shows "fst (run_then c w k) \<noteq> Inl (UnknownPasteMethod m)"
proof (cases "subprocess_run c w")
  case (Pair r w1)
  with assms show ?thesis
    by (cases r) (simp_all add: run_then_def UnknownPasteMethod_def)
qed

lemma paste_xdotool_not_unknown: "fst (paste_xdotool tx w) \<noteq> Inl (UnknownPasteMethod m)"
  unfolding paste_xdotool_def by (rule run_then_not_unknown) simp

lemma PasteFailed_not_unknown:
  "PasteFailed_wtype \<noteq> UnknownPasteMethod m" "PasteFailed_ydotool \<noteq> UnknownPasteMethod m"
  by (simp_all add: PasteFailed_wtype_def PasteFailed_ydotool_def UnknownPasteMethod_def)

lemma paste_wtype_not_unknown: "fst (paste_wtype tx w) \<noteq> Inl (UnknownPasteMethod m)"
  unfolding paste_wtype_def
  by (intro run_then_not_unknown) (simp add: run_then_not_unknown PasteFailed_not_unknown)

lemma ydotool_stream_not_unknown:
  "fst (ydotool_stream env delay tx w) \<noteq> Inl (UnknownPasteMethod m)"
  unfolding ydotool_stream_def
  by (rule run_then_not_unknown) (simp add: PasteFailed_not_unknown)

lemma paste_ydotool_not_unknown:
  "fst (paste_ydotool tx hotkey clip kd cd w) \<noteq> Inl (UnknownPasteMethod m)"
  unfolding paste_ydotool_def Let_def
  by (simp add: run_then_not_unknown ydotool_stream_not_unknown)

lemma paste_text_unknown_iff:
  "fst (paste_text tx method hotkey clip kd cd w) = Inl (UnknownPasteMethod m) \<longleftrightarrow>
     tx \<noteq> [] \<and> method \<notin> known_methods \<and> m = method"
proof (cases "tx = [] \<or> method \<in> known_methods")
  case True
  then have "fst (paste_text tx method hotkey clip kd cd w) \<noteq> Inl (UnknownPasteMethod m)"
    by (auto simp: paste_text_def known_methods_def paste_xdotool_not_unknown
        paste_wtype_not_unknown paste_ydotool_not_unknown)
  with True show ?thesis
    by auto
next
  case False
  then have "paste_text tx method hotkey clip kd cd w = (Inl (UnknownPasteMethod method), w)"
    by (simp add: paste_text_def known_methods_def)
  with False show ?thesis
    by (auto simp: UnknownPasteMethod_def)
qed

lemma pick_paste_method_known:
  "pick_paste_method w preferred = Inr method \<Longrightarrow> method \<in> known_methods"
  by (auto simp: pick_paste_method_def known_methods_def Let_def split: if_splits)

lemma pick_paste_method_not_unknown:
  "pick_paste_method w preferred \<noteq> Inl (UnknownPasteMethod m)"
  by (auto simp: pick_paste_method_def Let_def NoPasteToolAvailable_def UnknownPasteMethod_def)

lemma pick_paste_method_as_auto:
  "preferred \<notin> known_methods \<Longrightarrow> pick_paste_method w preferred = pick_paste_method w ''auto''"
  by (simp add: pick_paste_method_def known_methods_def)

lemma init_service_method:
  "init_service ecodes sys load_model w s a b c = Inr svc \<Longrightarrow>
   pick_paste_method w (paste_method s) = Inr (svc_paste_method svc)"
  by (auto simp: init_service_def split: sum.splits)

lemma init_demo:
  "init_service demo_ecodes mouse_first_host Inr wayland_world (default_settings\<lparr>paste_method := ''clipboard''\<rparr>) True True True =
     Inr (demo_service\<lparr>settings := default_settings\<lparr>paste_method := ''clipboard''\<rparr>, device := usb_mouse\<rparr>)"
  by (simp add: init_service_def resolve_key_code_def startswith_def demo_ecodes_def
      pick_keyboard_device_def mouse_first_host_def usb_mouse_def plain_keyboard_def
      is_pointer_def key_caps_def lower_def lower_chr_def Let_def
      pick_paste_method_def truthy_def world_defs svc_defs)

text \<open>
  Claim C2, as amended. A configured method that is not a known tool identifier is not
  rejected: \<open>pick_paste_method\<close> treats it as \<open>auto\<close>, so resolution returns a known
  identifier found by probing or raises \<open>NoPasteToolAvailable\<close>, and never raises
  \<open>UnknownPasteMethod\<close>. The unknown-method error is raised by \<open>paste_text\<close> alone,
  exactly when it is called with a non-empty text and a method that is not a known
  identifier; with a method returned by resolution, as in a constructed service, it is
  never raised.
\<close>

theorem unknown_method_resolves_as_auto:
  "pick_paste_method w preferred \<noteq> Inl (UnknownPasteMethod m) \<and>
   (preferred \<notin> known_methods \<longrightarrow> pick_paste_method w preferred = pick_paste_method w ''auto'') \<and>
   (pick_paste_method w preferred = Inr method \<longrightarrow>
      method \<in> known_methods \<and>
      (\<forall>m1. fst (paste_text tx method hotkey clip kd cd w') \<noteq> Inl (UnknownPasteMethod m1))) \<and>
   (init_service ecodes sys load_model w s a b c = Inr svc \<longrightarrow>
      svc_paste_method svc \<in> known_methods \<and>
      (\<forall>m1. fst (paste_call svc tx st) \<noteq> Inl (UnknownPasteMethod m1))) \<and>
   (fst (paste_text tx method2 hotkey clip kd cd w') = Inl (UnknownPasteMethod m2) \<longleftrightarrow>
      tx \<noteq> [] \<and> method2 \<notin> known_methods \<and> m2 = method2)"
proof -
  have known: "fst (paste_text tx mm hotkey clip kd cd ww) \<noteq> Inl (UnknownPasteMethod m1)"
    if "mm \<in> known_methods" for mm hotkey clip kd cd ww m1
    using that by (simp add: paste_text_unknown_iff)
  have svc: "svc_paste_method svc \<in> known_methods"
    if "init_service ecodes sys load_model w s a b c = Inr svc"
    using init_service_method[OF that] by (rule pick_paste_method_known)
  from known svc pick_paste_method_known[of w preferred "method"]
    pick_paste_method_not_unknown[of w preferred m] pick_paste_method_as_auto[of preferred w]
    paste_text_unknown_iff[of tx method2 hotkey clip kd cd w' m2]
  show ?thesis
    unfolding paste_call_def by blast
qed

theorem unknown_method_resolves_as_auto_witness:
  "''clipboard'' \<notin> known_methods \<and>
   pick_paste_method wayland_world ''clipboard'' = pick_paste_method wayland_world ''auto'' \<and>
   pick_paste_method wayland_world ''clipboard'' = Inr ''ydotool'' \<and>
   ''ydotool'' \<in> known_methods \<and>
   fst (paste_text ''hello'' ''ydotool'' ''auto'' ''auto'' 1 75 failing_tools_world) \<noteq>
     Inl (UnknownPasteMethod ''ydotool'') \<and>
   init_service demo_ecodes mouse_first_host Inr wayland_world
       (default_settings\<lparr>paste_method := ''clipboard''\<rparr>) True True True =
     Inr (demo_service\<lparr>settings := default_settings\<lparr>paste_method := ''clipboard''\<rparr>,
                       device := usb_mouse\<rparr>) \<and>
   svc_paste_method (demo_service\<lparr>settings := default_settings\<lparr>paste_method := ''clipboard''\<rparr>,
                                   device := usb_mouse\<rparr>) \<in> known_methods \<and>
   fst (paste_text ''hello'' ''clipboard'' ''auto'' ''auto'' 1 75 failing_tools_world) =
     Inl (UnknownPasteMethod ''clipboard'')"
proof -
  have n: "''clipboard'' \<notin> known_methods"
    by (simp add: known_methods_def)
  have r: "pick_paste_method wayland_world ''clipboard'' = Inr ''ydotool''"
    by (simp add: pick_paste_method_def Let_def truthy_def world_defs)
  have t: "''hello'' \<noteq> []"
    by simp
  from unknown_method_resolves_as_auto[of wayland_world "''clipboard''" "''clipboard''"
      "''ydotool''" "''hello''" "''auto''" "''auto''" 1 75 failing_tools_world demo_ecodes
      mouse_first_host Inr "default_settings\<lparr>paste_method := ''clipboard''\<rparr>" True True True
      "demo_service\<lparr>settings := default_settings\<lparr>paste_method := ''clipboard''\<rparr>,
                     device := usb_mouse\<rparr>" idle_state "''clipboard''" "''clipboard''"]
    n r t init_demo
  show ?thesis
    by blast
qed

text \<open>
  Claim C2 as stated fails: on the Wayland host the unknown method \<open>clipboard\<close> resolves
  to \<open>ydotool\<close>, and on a host without tools resolution raises \<open>NoPasteToolAvailable\<close>,
  not \<open>UnknownPasteMethod\<close>.
\<close>

theorem unknown_method_not_rejected_at_resolution:
  "''clipboard'' \<notin> known_methods \<and>
   pick_paste_method wayland_world ''clipboard'' = Inr ''ydotool'' \<and>
   pick_paste_method quiet_world ''clipboard'' = Inl NoPasteToolAvailable \<and>
   NoPasteToolAvailable \<noteq> UnknownPasteMethod ''clipboard''"
  by (simp add: known_methods_def pick_paste_method_def Let_def truthy_def world_defs
      NoPasteToolAvailable_def UnknownPasteMethod_def)

section \<open>The service loop: the properties\<close>

subsection \<open>Files and sessions across the paste and transcription calls\<close>

lemma same_fs_refl: "same_fs w w"
  by (simp add: same_fs_def)

lemma same_fs_subprocess_run:
  "same_fs w0 w \<Longrightarrow> same_fs w0 (snd (subprocess_run c w))"
  by (simp add: same_fs_def subprocess_run_def tick_def)

lemma same_fs_run_then:
  assumes "same_fs w0 w"
    and "\<And>rc w1. same_fs w0 w1 \<Longrightarrow> same_fs w0 (snd (k rc w1))"
  shows "same_fs w0 (snd (run_then c w k))"
proof (cases "subprocess_run c w")
  case (Pair r w1)
  have w1: "same_fs w0 w1"
    using same_fs_subprocess_run[OF assms(1), of c] Pair by simp
  show ?thesis
  proof (cases r)
    case (Exited rc)
    with Pair assms(2)[OF w1] show ?thesis by (simp add: run_then_def)
  next
    case (SpawnFailed msg)
    with Pair w1 show ?thesis by (simp add: run_then_def)
  qed
qed

lemma same_fs_paste_xdotool: "same_fs w0 w \<Longrightarrow> same_fs w0 (snd (paste_xdotool text w))"
  unfolding paste_xdotool_def by (rule same_fs_run_then) simp_all

lemma same_fs_paste_wtype: "same_fs w0 w \<Longrightarrow> same_fs w0 (snd (paste_wtype text w))"
  unfolding paste_wtype_def by (intro same_fs_run_then) (simp_all add: same_fs_run_then)

lemma same_fs_ydotool_stream:
  "same_fs w0 w \<Longrightarrow> same_fs w0 (snd (ydotool_stream env delay text w))"
  unfolding ydotool_stream_def by (rule same_fs_run_then) simp_all

lemma same_fs_paste_ydotool:
  "same_fs w0 w \<Longrightarrow> same_fs w0 (snd (paste_ydotool text hotkey clip kd cd w))"
  unfolding paste_ydotool_def Let_def
  by (simp add: same_fs_run_then same_fs_ydotool_stream)

lemma same_fs_paste_text:
  "same_fs w0 w \<Longrightarrow> same_fs w0 (snd (paste_text text method hotkey clip kd cd w))"
  by (simp add: paste_text_def same_fs_paste_xdotool same_fs_paste_wtype same_fs_paste_ydotool)

lemma same_fs_transcribe:
  "same_fs w0 w \<Longrightarrow> same_fs w0 (snd (transcribe mdl wav lang w))"
  by (simp add: transcribe_def same_fs_def tick_def split: sum.splits)


lemma svc_status_fields [simp]:
  "host (svc_status svc msg st) = host st" "wav_path (svc_status svc msg st) = wav_path st"
  "recording (svc_status svc msg st) = recording st" "proc (svc_status svc msg st) = proc st"
  by (simp_all add: svc_status_def)

lemma svc_text_fields [simp]:
  "host (svc_text svc msg st) = host st" "wav_path (svc_text svc msg st) = wav_path st"
  "recording (svc_text svc msg st) = recording st" "proc (svc_text svc msg st) = proc st"
  by (simp_all add: svc_text_def)

lemma svc_error_fields [simp]:
  "host (svc_error svc msg st) = host st" "wav_path (svc_error svc msg st) = wav_path st"
  "recording (svc_error svc msg st) = recording st" "proc (svc_error svc msg st) = proc st"
  by (simp_all add: svc_error_def)

lemma try_body_fields:
  "wav_path (snd (try_body svc st)) = wav_path st"
  "recording (snd (try_body svc st)) = recording st"
  "proc (snd (try_body svc st)) = proc st"
  by (simp_all add: try_body_def Let_def split: prod.splits sum.splits)

lemma try_body_same_fs: "same_fs (host st) (host (snd (try_body svc st)))"
proof (cases "transcribe_call svc st")
  case (Pair r w1)
  have "same_fs (host st) (snd (transcribe_call svc st))"
    unfolding transcribe_call_def by (rule same_fs_transcribe) (rule same_fs_refl)
  with Pair have w1: "same_fs (host st) w1"
    by simp
  show ?thesis
  proof (cases r)
    case (Inl e)
    with Pair w1 show ?thesis by (simp add: try_body_def)
  next
    case (Inr tx)
    have "same_fs (host st) (snd (paste_call svc tx (svc_text svc tx (st\<lparr>host := w1\<rparr>))))"
      unfolding paste_call_def by (rule same_fs_paste_text) (simp add: w1)
    with Pair Inr show ?thesis
      by (auto simp: try_body_def Let_def split: prod.splits)
  qed
qed

lemma cleanup_wav_fields [simp]:
  "wav_path (cleanup_wav st) = wav_path st" "recording (cleanup_wav st) = recording st"
  "proc (cleanup_wav st) = proc st" "sessions (host (cleanup_wav st)) = sessions (host st)"
  "delivered (cleanup_wav st) = delivered st"
  by (simp_all add: cleanup_wav_def unlink_def split: option.splits)

lemma cleanup_wav_removes:
  "wav_path st = Some p \<Longrightarrow> p \<noteq> [] \<Longrightarrow> p \<notin> files (host (cleanup_wav st))"
  by (simp add: cleanup_wav_def unlink_def path_exists_def)

lemma try_except_finally_removes:
  assumes "wav_path st = Some p" and "p \<noteq> []"
  shows "p \<notin> files (host (result_state (try_except_finally svc st)))"
proof (cases "try_body svc st")
  case (Pair r st1)
  have wp: "wav_path st1 = Some p"
    using try_body_fields(1)[of svc st] Pair assms(1) by simp
  show ?thesis
  proof (cases r)
    case (Inr u)
    with Pair cleanup_wav_removes[OF wp assms(2)] show ?thesis
      by (simp add: try_except_finally_def)
  next
    case (Inl e)
    have "p \<notin> files (host (cleanup_wav (svc_error svc msg st1)))" for msg
      by (rule cleanup_wav_removes) (simp_all add: wp assms(2))
    with Pair Inl cleanup_wav_removes[OF wp assms(2)] show ?thesis
      by (simp add: try_except_finally_def)
  qed
qed

lemma try_except_finally_sessions:
  "sessions (host (result_state (try_except_finally svc st))) = sessions (host st)"
proof (cases "try_body svc st")
  case (Pair r st1)
  have "sessions (host st1) = sessions (host st)"
    using try_body_same_fs[of st svc] Pair by (simp add: same_fs_def)
  with Pair show ?thesis
    by (cases r) (simp_all add: try_except_finally_def)
qed

lemma try_except_finally_fields:
  "wav_path (result_state (try_except_finally svc st)) = wav_path st"
  "proc (result_state (try_except_finally svc st)) = proc st"
  "recording (result_state (try_except_finally svc st)) = recording st"
  using try_body_fields[of svc st]
  by (cases "try_body svc st"; cases "fst (try_body svc st)";
      simp add: try_except_finally_def)+

lemma stop_recording_Some:
  "\<exists>w1. stop_recording (Some pid) w = (Inr (), w1) \<and> files w1 = files w \<and>
        sessions w1 = filter (\<lambda>s. fst s \<noteq> pid) (sessions w)"
  by (simp add: stop_recording_def Let_def tick_def)

lemma before_try_Some:
  assumes "proc st = Some pid"
  shows "\<exists>st1. before_try svc st = Inr st1 \<and> wav_path st1 = wav_path st \<and>
           recording st1 = recording st \<and> proc st1 = proc st \<and>
           files (host st1) = files (host st) \<and>
           sessions (host st1) = filter (\<lambda>s. fst s \<noteq> pid) (sessions (host st))"
proof -
  from stop_recording_Some[of pid "host st"] obtain w1 where
    w1: "stop_recording (Some pid) (host st) = (Inr (), w1)" "files w1 = files (host st)"
        "sessions w1 = filter (\<lambda>s. fst s \<noteq> pid) (sessions (host st))"
    by blast
  with assms show ?thesis
    by (simp add: before_try_def)
qed


lemma session_inv_recording:
  "session_inv st \<Longrightarrow> recording st \<Longrightarrow>
   \<exists>pid p. proc st = Some pid \<and> wav_path st = Some p \<and> p \<noteq> [] \<and>
           sessions (host st) = [(pid, p)]"
  by (auto simp: session_inv_def split: option.splits)

lemma session_inv_idle: "session_inv st \<Longrightarrow> \<not> recording st \<Longrightarrow> sessions (host st) = []"
  by (simp add: session_inv_def)

lemma session_inv_length: "session_inv st \<Longrightarrow> length (sessions (host st)) \<le> 1"
  by (cases "recording st") (auto dest: session_inv_recording session_inv_idle)

lemma on_key_up_after_before_try:
  assumes "before_try svc st = Inr st1"
  shows "host (result_state (on_key_up svc st)) = host (result_state (try_except_finally svc st1))"
    and "on_key_up svc st = Inr st' \<Longrightarrow> \<not> recording st'"
    and "on_key_up svc st = Inr st' \<Longrightarrow> proc st' = proc st1 \<and> wav_path st' = wav_path st1"
proof -
  show "host (result_state (on_key_up svc st)) = host (result_state (try_except_finally svc st1))"
    using assms by (cases "try_except_finally svc st1") (auto simp: on_key_up_def)
  show "on_key_up svc st = Inr st' \<Longrightarrow> \<not> recording st'"
    using assms by (cases "try_except_finally svc st1") (auto simp: on_key_up_def)
  show "on_key_up svc st = Inr st' \<Longrightarrow> proc st' = proc st1 \<and> wav_path st' = wav_path st1"
    using assms try_except_finally_fields[of svc st1]
    by (cases "try_except_finally svc st1") (auto simp: on_key_up_def)
qed

lemma on_key_up_sessions_le:
  "length (sessions (host (result_state (on_key_up svc st)))) \<le> length (sessions (host st))"
proof (cases "proc st")
  case None
  then show ?thesis
    by (simp add: on_key_up_def before_try_def stop_recording_def)
next
  case (Some pid)
  from before_try_Some[OF Some, of svc] obtain st1 where
    st1: "before_try svc st = Inr st1"
         "sessions (host st1) = filter (\<lambda>s. fst s \<noteq> pid) (sessions (host st))"
    by blast
  have "length (sessions (host (result_state (on_key_up svc st)))) = length (sessions (host st1))"
    by (simp add: on_key_up_after_before_try(1)[OF st1(1)] try_except_finally_sessions)
  with st1(2) show ?thesis
    by simp
qed

lemma temp_name_nonempty: "temp_name w \<noteq> []"
  by (simp add: temp_name_def)

lemma start_recording_cases:
  "(\<exists>msg w1. start_recording w = (Inl (OSError msg), w1) \<and> sessions w1 = sessions w) \<or>
   (\<exists>pid w1. start_recording w = (Inr (pid, temp_name w), w1) \<and>
              sessions w1 = sessions w @ [(pid, temp_name w)] \<and> temp_name w \<in> files w1)"
  by (cases "popen_result (tick (w\<lparr>files := insert (temp_name w) (files w)\<rparr>))
               (clock (tick (w\<lparr>files := insert (temp_name w) (files w)\<rparr>)))")
     (simp_all add: start_recording_def Let_def tick_def)

lemma on_key_down_inv:
  assumes "session_inv st" and "\<not> recording st"
  shows "(\<forall>st'. on_key_down svc st = Inr st' \<longrightarrow> session_inv st') \<and>
         length (sessions (host (result_state (on_key_down svc st)))) \<le> 1"
proof -
  have empty: "sessions (host st) = []"
    using assms by (rule session_inv_idle)
  from start_recording_cases[of "host st"] show ?thesis
  proof
    assume "\<exists>msg w1. start_recording (host st) = (Inl (OSError msg), w1) \<and>
              sessions w1 = sessions (host st)"
    with empty show ?thesis
      by (auto simp: on_key_down_def)
  next
    assume "\<exists>pid w1. start_recording (host st) = (Inr (pid, temp_name (host st)), w1) \<and>
              sessions w1 = sessions (host st) @ [(pid, temp_name (host st))] \<and>
              temp_name (host st) \<in> files w1"
    with empty show ?thesis
      by (auto simp: on_key_down_def session_inv_def temp_name_nonempty)
  qed
qed

lemma on_key_up_inv:
  assumes "session_inv st" and "recording st"
  shows "(\<forall>st'. on_key_up svc st = Inr st' \<longrightarrow> session_inv st') \<and>
         length (sessions (host (result_state (on_key_up svc st)))) \<le> 1"
proof -
  from session_inv_recording[OF assms] obtain pid p where
    pp: "proc st = Some pid" "sessions (host st) = [(pid, p)]"
    by blast
  from before_try_Some[OF pp(1), of svc] pp(2) obtain st1 where
    st1: "before_try svc st = Inr st1" "sessions (host st1) = []"
    by auto
  have gone: "sessions (host (result_state (on_key_up svc st))) = []"
    by (simp add: on_key_up_after_before_try(1)[OF st1(1)] try_except_finally_sessions st1(2))
  have "session_inv st'" if "on_key_up svc st = Inr st'" for st'
    using gone that on_key_up_after_before_try(2)[OF st1(1) that]
    by (simp add: session_inv_def)
  with gone show ?thesis
    by simp
qed

lemma handle_event_inv:
  assumes "session_inv st"
  shows "(\<forall>st'. handle_event svc ev st = Inr st' \<longrightarrow> session_inv st') \<and>
         length (sessions (host (result_state (handle_event svc ev st)))) \<le> 1"
  using assms on_key_down_inv[OF assms, of svc] on_key_up_inv[OF assms, of svc]
    session_inv_length[OF assms]
  by (auto simp: handle_event_def)

lemma handle_events_inv:
  "session_inv st \<Longrightarrow>
   (\<forall>st'. handle_events svc evs st = Inr st' \<longrightarrow> session_inv st') \<and>
   length (sessions (host (result_state (handle_events svc evs st)))) \<le> 1"
proof (induction evs arbitrary: st)
  case Nil
  with session_inv_length[of st] show ?case
    by simp
next
  case (Cons ev evs)
  show ?case
  proof (cases "handle_event svc ev st")
    case (Inl x)
    with handle_event_inv[OF Cons.prems, of svc ev] show ?thesis
      by simp
  next
    case (Inr st1)
    with handle_event_inv[OF Cons.prems, of svc ev] have "session_inv st1"
      by simp
    from Cons.IH[OF this] Inr show ?thesis
      by simp
  qed
qed

lemma after_loop_sessions:
  "length (sessions (host (state_of (after_loop st)))) \<le> length (sessions (host st))"
proof (cases "recording st \<and> proc st \<noteq> None")
  case False
  then show ?thesis
    by (auto simp: after_loop_def)
next
  case True
  then obtain pid where pid: "proc st = Some pid"
    by auto
  from stop_recording_Some[of pid "host st"] True pid show ?thesis
    by (auto simp: after_loop_def)
qed

lemma run_loop_sessions:
  "session_inv st \<Longrightarrow> length (sessions (host (state_of (run_loop svc its st)))) \<le> 1"
proof (induction svc its st rule: run_loop.induct)
  case (1 svc st)
  with session_inv_length[of st] show ?case
    by simp
next
  case (2 svc its st)
  with after_loop_sessions[of st] session_inv_length[of st] show ?case
    by simp
next
  case (3 svc msg its st)
  with after_loop_sessions[of "svc_error svc (''Input device error: '' @ msg) st"]
    session_inv_length[of st] show ?case
    by simp
next
  case (4 svc its st)
  then show ?case
    by simp
next
  case (5 svc msg its st)
  with after_loop_sessions[of "svc_error svc (''Input read error: '' @ msg) st"]
    session_inv_length[of st] show ?case
    by simp
next
  case (6 svc evs its st)
  show ?case
  proof (cases "handle_events svc evs st")
    case (Inl x)
    with handle_events_inv[OF "6.prems", of svc evs] show ?thesis
      by (cases x) simp
  next
    case (Inr st1)
    with handle_events_inv[OF "6.prems", of svc evs] have "session_inv st1"
      by simp
    from "6.IH"[OF Inr this] Inr show ?thesis
      by simp
  qed
qed

lemma session_inv_init: "sessions w = [] \<Longrightarrow> session_inv (svc_status svc msg (init_state w))"
  by (simp add: session_inv_def init_state_def)

subsection \<open>Evaluating the concrete states\<close>

lemmas eval_defs = svc_defs world_defs handle_event_def on_key_down_def start_recording_def
  svc_status_def init_state_def tick_def temp_name_def Let_def

lemma held_state_fields:
  "recording held_state" "proc held_state = Some 1"
  "wav_path held_state = Some ''/tmp/whisper-fn-k3x9q2ab.wav''"
  "sessions (host held_state) = [(1, ''/tmp/whisper-fn-k3x9q2ab.wav'')]"
  "files (host held_state) = {''/tmp/whisper-fn-k3x9q2ab.wav''}"
  "delivered held_state = [StatusEv ''ready'', StatusEv ''recording'']"
  by (simp_all add: held_state_def eval_defs)


lemma key_ev_fields:
  "ev_type (key_ev v) = EV_KEY" "ev_code (key_ev v) = key_code demo_service" "ev_value (key_ev v) = v"
  by (simp_all add: svc_defs)

lemma idle_state_fields:
  "\<not> recording idle_state" "sessions (host idle_state) = []"
  by (simp_all add: idle_state_def eval_defs)

lemma held_from_idle: "handle_event demo_service (key_ev 1) idle_state = Inr held_state"
  by (simp add: held_state_def idle_state_def eval_defs)









text \<open>
  Claim C10. An event whose value is neither 0 nor 1 (an auto-repeat, value 2) is ignored,
  also when it is an \<open>EV_KEY\<close> event of the configured key: the whole state is unchanged
  (no session started or stopped, the recording flag and the delivered messages as they
  were), and the loop goes on with the rest of the batch.
\<close>

theorem handle_event_ignores_other_values:
  "ev_value ev \<noteq> 0 \<Longrightarrow> ev_value ev \<noteq> 1 \<Longrightarrow>
   handle_event svc ev st = Inr st \<and>
   run_loop svc (Events (ev # evs) # its) st = run_loop svc (Events evs # its) st"
  by (simp add: handle_event_def)

theorem handle_event_ignores_other_values_witness:
  "ev_value (key_ev 2) \<noteq> 0 \<and> ev_value (key_ev 2) \<noteq> 1 \<and>
   ev_type (key_ev 2) = EV_KEY \<and> ev_code (key_ev 2) = key_code demo_service \<and>
   recording held_state \<and>
   handle_event demo_service (key_ev 2) held_state = Inr held_state \<and>
   run_loop demo_service [Events [key_ev 2, key_ev 2], Timeout] held_state =
     run_loop demo_service [Events [key_ev 2], Timeout] held_state"
proof -
  have v: "ev_value (key_ev 2) \<noteq> 0" "ev_value (key_ev 2) \<noteq> 1"
    by (simp_all add: key_ev_def)
  have k: "ev_type (key_ev 2) = EV_KEY" "ev_code (key_ev 2) = key_code demo_service"
    by (simp_all add: svc_defs)
  have r: "recording held_state"
    by (simp add: svc_defs held_state_def handle_event_def on_key_down_def start_recording_def
        svc_status_def init_state_def world_defs tick_def temp_name_def Let_def)
  from handle_event_ignores_other_values[OF v, of demo_service held_state "[key_ev 2]" "[Timeout]"]
    v k r show ?thesis
    by blast
qed

text \<open>
  Claim C4. When a key-up of the configured key is handled while a recording runs, the
  temporary file of that recording (the file of the one session, held in \<open>wav_path\<close>) does
  not exist once the \<open>try\<close> statement has been left, whatever the recogniser and the tools
  do: transcription and paste succeed, either raises an \<open>Exception\<close>, or an exception
  outside \<open>Exception\<close> passes through \<open>finally\<close> and out of the loop. The same holds for
  the state the handler leaves behind. The premise \<open>session_inv\<close> holds when \<open>run\<close> starts
  on a host without sessions and after every event handled since (\<open>session_inv_init\<close>,
  \<open>handle_events_inv\<close>).
\<close>

theorem temp_file_removed_on_every_exit:
  assumes "session_inv st" and "recording st"
    and "ev_type ev = EV_KEY" and "ev_code ev = key_code svc" and "ev_value ev = 0"
  shows "\<exists>pid p. proc st = Some pid \<and> wav_path st = Some p \<and> sessions (host st) = [(pid, p)] \<and>
           p \<notin> files (host (result_state (handle_event svc ev st))) \<and>
           (\<forall>st1. before_try svc st = Inr st1 \<longrightarrow>
              p \<notin> files (host (result_state (try_except_finally svc st1))))"
proof -
  from session_inv_recording[OF assms(1,2)] obtain pid p where
    pp: "proc st = Some pid" "wav_path st = Some p" "p \<noteq> []" "sessions (host st) = [(pid, p)]"
    by blast
  from before_try_Some[OF pp(1), of svc] pp(2) obtain st1 where
    st1: "before_try svc st = Inr st1" "wav_path st1 = Some p"
    by auto
  have scope: "p \<notin> files (host (result_state (try_except_finally svc st1)))"
    using st1(2) pp(3) by (rule try_except_finally_removes)
  have "handle_event svc ev st = on_key_up svc st"
    using assms(2-5) by (simp add: handle_event_def)
  then have "p \<notin> files (host (result_state (handle_event svc ev st)))"
    using scope by (simp add: on_key_up_after_before_try(1)[OF st1(1)])
  with pp st1(1) scope show ?thesis
    by auto
qed

theorem temp_file_removed_on_every_exit_witness:
  "session_inv held_state \<and> recording held_state \<and>
   ev_type (key_ev 0) = EV_KEY \<and> ev_code (key_ev 0) = key_code demo_service \<and>
   ev_value (key_ev 0) = 0 \<and>
   wav_path held_state = Some ''/tmp/whisper-fn-k3x9q2ab.wav'' \<and>
   ''/tmp/whisper-fn-k3x9q2ab.wav'' \<in> files (host held_state) \<and>
   ''/tmp/whisper-fn-k3x9q2ab.wav'' \<notin>
      files (host (result_state (handle_event demo_service (key_ev 0) held_state)))"
proof -
  have inv: "session_inv held_state"
    by (simp add: session_inv_def held_state_fields)
  from temp_file_removed_on_every_exit[OF inv held_state_fields(1) key_ev_fields] held_state_fields(3)
  have "''/tmp/whisper-fn-k3x9q2ab.wav'' \<notin>
      files (host (result_state (handle_event demo_service (key_ev 0) held_state)))"
    by auto
  with inv held_state_fields key_ev_fields show ?thesis
    by simp
qed





lemma handle_event_new_session:
  assumes "length (sessions (host st)) < length (sessions (host (result_state (handle_event svc ev st))))"
  shows "\<not> recording st \<and> ev_type ev = EV_KEY \<and> ev_code ev = key_code svc \<and> ev_value ev = 1"
proof -
  have "handle_event svc ev st \<noteq> Inr st"
    using assms by auto
  moreover have "handle_event svc ev st \<noteq> on_key_up svc st"
    using assms on_key_up_sessions_le[of svc st] by auto
  ultimately show ?thesis
    by (auto simp: handle_event_def split: if_splits)
qed

lemma on_key_down_recording: "on_key_down svc st = Inr st' \<Longrightarrow> recording st'"
  using start_recording_cases[of "host st"]
  by (auto simp: on_key_down_def)

lemma queued_key_down_handled_idle:
  assumes "session_inv st" and "recording st"
    and "ev_type up = EV_KEY" and "ev_code up = key_code svc" and "ev_value up = 0"
    and "ev_type dn = EV_KEY" and "ev_code dn = key_code svc" and "ev_value dn = 1"
    and "handle_event svc up st = Inr st3"
  shows "\<not> recording st3 \<and> sessions (host st3) = [] \<and>
         handle_events svc [up, dn] st = on_key_down svc st3 \<and>
         (\<forall>st4. on_key_down svc st3 = Inr st4 \<longrightarrow>
            recording st4 \<and> length (sessions (host st4)) = 1)"
proof -
  have up: "on_key_up svc st = Inr st3"
    using assms(2-5,9) by (simp add: handle_event_def)
  from session_inv_recording[OF assms(1,2)] obtain pid where "proc st = Some pid"
    by blast
  from before_try_Some[OF this, of svc] obtain st1 where "before_try svc st = Inr st1"
    by blast
  from on_key_up_after_before_try(2)[OF this up] have idle: "\<not> recording st3" .
  from on_key_up_inv[OF assms(1,2), of svc] up have inv: "session_inv st3"
    by simp
  from session_inv_idle[OF inv idle] have none: "sessions (host st3) = []" .
  have dn: "handle_event svc dn st3 = on_key_down svc st3"
    using assms(6-8) idle by (simp add: handle_event_def)
  have batch: "handle_events svc [up, dn] st = on_key_down svc st3"
    by (cases "on_key_down svc st3") (simp_all add: assms(9) dn)
  have one: "recording st4 \<and> length (sessions (host st4)) = 1"
    if "on_key_down svc st3 = Inr st4" for st4
  proof -
    from on_key_down_recording[OF that] have r: "recording st4" .
    from on_key_down_inv[OF inv idle, of svc] that have "session_inv st4"
      by simp
    from session_inv_recording[OF this r] r show ?thesis
      by auto
  qed
  from idle none batch one show ?thesis
    by blast
qed

lemmas run_eval_defs = run_def on_key_up_def before_try_def stop_recording_def
  try_except_finally_def try_body_def transcribe_call_def transcribe_def paste_call_def
  paste_text_def paste_ydotool_def ydotool_stream_def run_then_def subprocess_run_def
  cleanup_wav_def unlink_def path_exists_def svc_text_def truthy_def lower_def lower_chr_def
  strip_def py_isspace_def eval_defs

lemma released_from_held: "handle_event demo_service (key_ev 0) held_state = Inr released_state"
  by (simp add: released_state_def held_state_def run_eval_defs)

text \<open>
  Claim C6, as amended. At most one recording session exists at any point of a run:
  whatever the iterations and events, the state the loop has reached holds at most one
  session. A key-down of the configured key that is handled while the recording flag is
  set changes nothing, so it starts no session, and a step that adds a session is a
  key-down of the configured key handled in the idle state. The flag is set by
  \<open>start_recording\<close> and cleared only after \<open>stop_recording\<close>, transcription and paste, and
  no event is handled in between: a key-down that arrives while the service transcribes
  is not discarded. It stays queued, is handled once the utterance is over, in the idle
  state, and starts a new session there (when the recorder can be started).
\<close>

theorem at_most_one_recording_session:
  "(sessions w = [] \<longrightarrow> length (sessions (host (state_of (run svc its w)))) \<le> 1) \<and>
   (recording st \<and> ev_value ev = 1 \<longrightarrow> handle_event svc ev st = Inr st) \<and>
   (length (sessions (host st2)) < length (sessions (host (result_state (handle_event svc ev2 st2))))
      \<longrightarrow> \<not> recording st2 \<and> ev_type ev2 = EV_KEY \<and> ev_code ev2 = key_code svc \<and> ev_value ev2 = 1) \<and>
   (session_inv st5 \<and> recording st5 \<and>
    ev_type up = EV_KEY \<and> ev_code up = key_code svc \<and> ev_value up = 0 \<and>
    ev_type dn = EV_KEY \<and> ev_code dn = key_code svc \<and> ev_value dn = 1 \<and>
    handle_event svc up st5 = Inr st3
      \<longrightarrow> \<not> recording st3 \<and> sessions (host st3) = [] \<and>
          handle_events svc [up, dn] st5 = on_key_down svc st3 \<and>
          (\<forall>st4. on_key_down svc st3 = Inr st4 \<longrightarrow>
             recording st4 \<and> length (sessions (host st4)) = 1))"
proof -
  have a: "length (sessions (host (state_of (run svc its w)))) \<le> 1" if "sessions w = []"
    unfolding run_def by (rule run_loop_sessions) (rule session_inv_init[OF that])
  have b: "handle_event svc ev st = Inr st" if "recording st \<and> ev_value ev = 1"
    using that by (simp add: handle_event_def)
  from a b handle_event_new_session[of st2 svc ev2]
    queued_key_down_handled_idle[of st5 up svc dn st3]
  show ?thesis
    by blast
qed

theorem at_most_one_recording_session_witness:
  "sessions wayland_world = [] \<and>
   length (sessions (host (state_of
      (run demo_service [Events [key_ev 1, key_ev 1], Timeout, Events [key_ev 0, key_ev 1]]
         wayland_world)))) \<le> 1 \<and>
   recording held_state \<and> ev_value (key_ev 1) = 1 \<and>
   handle_event demo_service (key_ev 1) held_state = Inr held_state \<and>
   length (sessions (host idle_state)) <
     length (sessions (host (result_state (handle_event demo_service (key_ev 1) idle_state)))) \<and>
   \<not> recording idle_state \<and> ev_type (key_ev 1) = EV_KEY \<and>
   ev_code (key_ev 1) = key_code demo_service \<and>
   session_inv held_state \<and> ev_type (key_ev 0) = EV_KEY \<and>
   ev_code (key_ev 0) = key_code demo_service \<and> ev_value (key_ev 0) = 0 \<and>
   handle_event demo_service (key_ev 0) held_state = Inr released_state \<and>
   \<not> recording released_state \<and> sessions (host released_state) = [] \<and>
   handle_events demo_service [key_ev 0, key_ev 1] held_state =
     on_key_down demo_service released_state"
proof -
  have e: "sessions wayland_world = []"
    by (simp add: world_defs)
  have g: "length (sessions (host idle_state)) <
     length (sessions (host (result_state (handle_event demo_service (key_ev 1) idle_state))))"
    by (simp add: held_from_idle idle_state_fields held_state_fields)
  have inv: "session_inv held_state"
    by (simp add: session_inv_def held_state_fields)
  from at_most_one_recording_session[of wayland_world demo_service
      "[Events [key_ev 1, key_ev 1], Timeout, Events [key_ev 0, key_ev 1]]"
      held_state "key_ev 1" idle_state "key_ev 1" held_state "key_ev 0" "key_ev 1"
      released_state]
    e g inv held_state_fields(1) key_ev_fields[of 1] key_ev_fields[of 0] released_from_held
  show ?thesis
    by blast
qed

text \<open>
  Claim C6 as stated fails for a key-down that arrives while the service transcribes.
  In the run below the key goes down, and the next batch holds the key-up followed by a
  second key-down, which therefore waits while the first utterance is transcribed and
  pasted. It is then handled and starts a second recorder: the run ends recording, with
  the session of process 2.
\<close>

theorem queued_key_down_starts_second_session:
  "recording (state_of queued_key_down_run) \<and>
   sessions (host (state_of queued_key_down_run)) = [(2, ''/tmp/whisper-fn-k3x9q2ab.wav'')] \<and>
   next_pid (host (state_of queued_key_down_run)) = 3 \<and>
   delivered (state_of queued_key_down_run) =
     [StatusEv ''ready'', StatusEv ''recording'', StatusEv ''transcribing'',
      TextEv ''hello world'', StatusEv ''ready'', StatusEv ''recording'']"
  by (simp add: queued_key_down_run_def run_eval_defs)

end
